theory Spec2Isabelle
  imports Main
begin

section \<open>The assessment queue page\<close>

text \<open>
  A shallow embedding of \<^verbatim>\<open>src/pages/AssessmentQueuePage.tsx\<close>: the React state cells of the
  component are the fields of a record, every handler is a function from the state before to
  the state after, and the two collaborators the handlers talk to (the idea service and the
  toast hook) are made explicit: the service is a parameter, every call to it is logged, and
  every toast is logged.
\<close>

subsection \<open>Data\<close>

text \<open>The four status strings of an idea.\<close>

datatype idea_status = Submitted | UnderReview | Assessed | Rejected

text \<open>
  Modelled from the spec: the type \<^verbatim>\<open>ScoreLevel\<close> is declared in \<^verbatim>\<open>../data/ideas\<close>, which is not
  part of the sources at hand. The spec calls it a closed enumeration of ordered ratings and
  uses the levels Low, Medium and High.
\<close>

datatype score_level = Low | Medium | High

text \<open>
  Modelled from the spec: the type \<^verbatim>\<open>Idea\<close> is declared in \<^verbatim>\<open>../data/ideas\<close> as well. The page
  reads \<^verbatim>\<open>id\<close>, \<^verbatim>\<open>status\<close> and \<^verbatim>\<open>title\<close> in its handlers; the other fields are only rendered.
\<close>

record idea =
  idea_id :: string
  status :: idea_status
  title :: string
  description :: string
  expectedBenefits :: string
  aiCapabilityArea :: string
  businessFunction :: string
  submitterName :: string
  createdAt :: string

text \<open>
  The object literal that \<^verbatim>\<open>handleSubmitAssessment\<close> hands to the service. A property read such
  as \<^verbatim>\<open>scores.businessGrowth\<close> yields \<^verbatim>\<open>undefined\<close> for a key that is not there, hence the
  options. The field \<open>assessment_rationales\<close> is the property \<^verbatim>\<open>rationales\<close> of the literal.
\<close>

record assessment =
  businessGrowth :: "score_level option"
  costEfficiency :: "score_level option"
  businessResilience :: "score_level option"
  businessAgility :: "score_level option"
  technicalFeasibility :: "score_level option"
  internalReadiness :: "score_level option"
  externalReadiness :: "score_level option"
  assessment_rationales :: "string \<rightharpoonup> string"
  assessedBy :: string

subsection \<open>The collaborators\<close>

text \<open>An awaited promise either resolves with a value or rejects.\<close>

datatype 'a promise = Resolved 'a | Failed

text \<open>
  The three methods of \<^verbatim>\<open>ideaService\<close> that the page calls. The service lives in
  \<^verbatim>\<open>../services/ideaService\<close>; here it is a parameter: each method takes the state \<open>'s\<close> of
  whatever stands behind the service and returns the outcome of the promise together with the
  state afterwards.
\<close>

record 's idea_service =
  getIdeasByStatus :: "idea_status \<Rightarrow> 's \<Rightarrow> idea list promise \<times> 's"
  updateIdeaStatus :: "string \<Rightarrow> idea_status \<Rightarrow> 's \<Rightarrow> unit promise \<times> 's"
  submitAssessment :: "string \<Rightarrow> assessment \<Rightarrow> 's \<Rightarrow> unit promise \<times> 's"

datatype store_call =
    GetIdeasByStatus idea_status
  | UpdateIdeaStatus string idea_status
  | SubmitAssessment string assessment

datatype toast_kind = Warning | Success | Error

subsection \<open>The state of the page\<close>

text \<open>
  The six \<^verbatim>\<open>useState\<close> cells of the component, followed by what the component has done to
  the outside: the toasts shown, the service calls issued (oldest first) and the state behind
  the service.
\<close>

record 's page =
  pendingIdeas :: "idea list"
  loading :: bool
  selectedIdea :: "idea option"
  submitting :: bool
  scores :: "string \<rightharpoonup> score_level"
  rationales :: "string \<rightharpoonup> string"
  toasts :: "(string \<times> toast_kind) list"
  calls :: "store_call list"
  store :: 's

text \<open>The initial values of the cells, before the effect hook has run.\<close>

definition initial_page :: "'s \<Rightarrow> 's page" where
  "initial_page st =
     \<lparr>pendingIdeas = [], loading = True, selectedIdea = None, submitting = False,
      scores = Map.empty, rationales = Map.empty, toasts = [], calls = [], store = st\<rparr>"

definition showToast :: "string \<Rightarrow> toast_kind \<Rightarrow> 's page \<Rightarrow> 's page" where
  "showToast message kind w = w\<lparr>toasts := toasts w @ [(message, kind)]\<rparr>"

text \<open>Issuing a service call: the call is logged and the service runs on the store.\<close>

definition call_store ::
  "store_call \<Rightarrow> ('s \<Rightarrow> 'a promise \<times> 's) \<Rightarrow> 's page \<Rightarrow> 'a promise \<times> 's page" where
  "call_store c f w =
     (case f (store w) of (r, st) \<Rightarrow> (r, w\<lparr>calls := calls w @ [c], store := st\<rparr>))"

subsection \<open>The handlers\<close>

text \<open>
  \<^verbatim>\<open>fetchPendingIdeas\<close>: two awaited queries. A query that rejects ends the function there (the
  rejection is not caught), so the list is not replaced and \<^verbatim>\<open>loading\<close> stays set.
\<close>

definition fetchPendingIdeas :: "'s idea_service \<Rightarrow> 's page \<Rightarrow> 's page" where
  "fetchPendingIdeas svc w =
     (case call_store (GetIdeasByStatus Submitted) (getIdeasByStatus svc Submitted)
             (w\<lparr>loading := True\<rparr>) of
        (Failed, w1) \<Rightarrow> w1
      | (Resolved submitted, w1) \<Rightarrow>
          (case call_store (GetIdeasByStatus UnderReview) (getIdeasByStatus svc UnderReview) w1 of
             (Failed, w2) \<Rightarrow> w2
           | (Resolved underReview, w2) \<Rightarrow>
               w2\<lparr>pendingIdeas := submitted @ underReview, loading := False\<rparr>))"

text \<open>
  \<^verbatim>\<open>handleSelectIdea\<close>: the three cells are set first; the status update is awaited, and the
  refresh runs only after it has resolved.
\<close>

definition handleSelectIdea :: "'s idea_service \<Rightarrow> idea \<Rightarrow> 's page \<Rightarrow> 's page" where
  "handleSelectIdea svc i w =
     (let w1 = w\<lparr>selectedIdea := Some i, scores := Map.empty, rationales := Map.empty\<rparr>
      in if status i = Submitted
         then (case call_store (UpdateIdeaStatus (idea_id i) UnderReview)
                      (updateIdeaStatus svc (idea_id i) UnderReview) w1 of
                 (Failed, w2) \<Rightarrow> w2
               | (Resolved u, w2) \<Rightarrow> fetchPendingIdeas svc w2)
         else w1)"

definition handleScoreChange :: "string \<Rightarrow> score_level \<Rightarrow> 's page \<Rightarrow> 's page" where
  "handleScoreChange dimension score w = w\<lparr>scores := (scores w)(dimension \<mapsto> score)\<rparr>"

definition handleRationaleChange :: "string \<Rightarrow> string \<Rightarrow> 's page \<Rightarrow> 's page" where
  "handleRationaleChange dimension rationale w =
     w\<lparr>rationales := (rationales w)(dimension \<mapsto> rationale)\<rparr>"

definition requiredDimensions :: "string list" where
  "requiredDimensions =
     [''businessGrowth'', ''costEfficiency'', ''businessResilience'', ''businessAgility'',
      ''technicalFeasibility'', ''internalReadiness'', ''externalReadiness'']"

text \<open>
  The truth value JavaScript gives to \<^verbatim>\<open>scores[dim]\<close>: \<^verbatim>\<open>undefined\<close> is falsy; a level is a
  non-empty label, which is truthy.
\<close>

fun truthy :: "score_level option \<Rightarrow> bool" where
  "truthy None = False"
| "truthy (Some Low) = True"
| "truthy (Some Medium) = True"
| "truthy (Some High) = True"

definition isComplete :: "'s page \<Rightarrow> bool" where
  "isComplete w = list_all (\<lambda>dim. truthy (scores w dim)) requiredDimensions"

text \<open>The record built in the call to \<^verbatim>\<open>ideaService.submitAssessment\<close>.\<close>

definition assessment_of :: "'s page \<Rightarrow> assessment" where
  "assessment_of w =
     \<lparr>businessGrowth = scores w ''businessGrowth'',
      costEfficiency = scores w ''costEfficiency'',
      businessResilience = scores w ''businessResilience'',
      businessAgility = scores w ''businessAgility'',
      technicalFeasibility = scores w ''technicalFeasibility'',
      internalReadiness = scores w ''internalReadiness'',
      externalReadiness = scores w ''externalReadiness'',
      assessment_rationales = rationales w,
      assessedBy = ''Assessment Team''\<rparr>"

text \<open>The message of the success toast: the title between double quotes, then the text.\<close>

definition assessed_message :: "idea \<Rightarrow> string" where
  "assessed_message i = CHR 0x22 # title i @ CHR 0x22 # '' has been assessed!''"

text \<open>
  \<^verbatim>\<open>handleSubmitAssessment\<close> up to its \<^verbatim>\<open>await\<close>: the guard, \<^verbatim>\<open>setSubmitting(true)\<close> and the
  call. \<open>Inl\<close> is the early return; \<open>Inr\<close> carries the idea the closure holds, the outcome the
  promise will have, and the page while the call is outstanding.
\<close>

definition handleSubmitAssessment_dispatch ::
  "'s idea_service \<Rightarrow> 's page \<Rightarrow> 's page + (idea \<times> unit promise \<times> 's page)" where
  "handleSubmitAssessment_dispatch svc w =
     (case selectedIdea w of
        None \<Rightarrow> Inl (showToast ''Please score all dimensions before submitting'' Warning w)
      | Some i \<Rightarrow>
          if \<not> isComplete w
          then Inl (showToast ''Please score all dimensions before submitting'' Warning w)
          else (case call_store (SubmitAssessment (idea_id i) (assessment_of w))
                       (submitAssessment svc (idea_id i) (assessment_of w))
                       (w\<lparr>submitting := True\<rparr>) of
                  (r, w1) \<Rightarrow> Inr (i, r, w1)))"

text \<open>
  The rest of \<^verbatim>\<open>handleSubmitAssessment\<close>, once the promise has settled: the remainder of the
  \<^verbatim>\<open>try\<close> block, or the \<^verbatim>\<open>catch\<close> block, and then the \<^verbatim>\<open>finally\<close> block.
\<close>

definition handleSubmitAssessment_settle ::
  "'s idea_service \<Rightarrow> idea \<Rightarrow> unit promise \<Rightarrow> 's page \<Rightarrow> 's page" where
  "handleSubmitAssessment_settle svc i r w =
     (case r of
        Resolved u \<Rightarrow>
          (let w1 = showToast (assessed_message i) Success w;
               w2 = w1\<lparr>selectedIdea := None, scores := Map.empty, rationales := Map.empty\<rparr>;
               w3 = fetchPendingIdeas svc w2
           in w3\<lparr>submitting := False\<rparr>)
      | Failed \<Rightarrow> (showToast ''Failed to submit assessment'' Error w)\<lparr>submitting := False\<rparr>)"

text \<open>The whole handler, run from the click to the end with nothing in between.\<close>

definition handleSubmitAssessment :: "'s idea_service \<Rightarrow> 's page \<Rightarrow> 's page" where
  "handleSubmitAssessment svc w =
     (case handleSubmitAssessment_dispatch svc w of
        Inl w1 \<Rightarrow> w1
      | Inr (i, r, w1) \<Rightarrow> handleSubmitAssessment_settle svc i r w1)"

text \<open>The handler of the Cancel button: \<^verbatim>\<open>() => setSelectedIdea(null)\<close>.\<close>

definition cancelSelection :: "'s page \<Rightarrow> 's page" where
  "cancelSelection w = w\<lparr>selectedIdea := None\<rparr>"

text \<open>The \<^verbatim>\<open>disabled\<close> attribute of the Submit button.\<close>

definition submit_disabled :: "'s page \<Rightarrow> bool" where
  "submit_disabled w = (\<not> isComplete w \<or> submitting w)"

text \<open>The effect hook runs \<^verbatim>\<open>fetchPendingIdeas\<close> once, when the component is mounted.\<close>

definition mount :: "'s idea_service \<Rightarrow> 's \<Rightarrow> 's page" where
  "mount svc st = fetchPendingIdeas svc (initial_page st)"

subsection \<open>Notions for the statements\<close>

text \<open>Edits of the draft, for statements about sequences of them.\<close>

datatype draft_edit = SetScore string score_level | SetRationale string string

fun apply_edit :: "'s page \<Rightarrow> draft_edit \<Rightarrow> 's page" where
  "apply_edit w (SetScore d l) = handleScoreChange d l w"
| "apply_edit w (SetRationale d t) = handleRationaleChange d t w"

text \<open>The calls that write to the store.\<close>

fun is_write :: "store_call \<Rightarrow> bool" where
  "is_write (GetIdeasByStatus s) = False"
| "is_write (UpdateIdeaStatus k s) = True"
| "is_write (SubmitAssessment k a) = True"

text \<open>The calls that submit an assessment.\<close>

fun is_submission :: "store_call \<Rightarrow> bool" where
  "is_submission (SubmitAssessment k a) = True"
| "is_submission c = False"

text \<open>The status a call writes, and for which identifier: a submission marks the idea assessed.\<close>

fun written_status :: "store_call \<Rightarrow> (string \<times> idea_status) option" where
  "written_status (GetIdeasByStatus s) = None"
| "written_status (UpdateIdeaStatus k s) = Some (k, s)"
| "written_status (SubmitAssessment k a) = Some (k, Assessed)"

subsection \<open>The idea store\<close>

text \<open>
  Modelled from the spec: the module \<^verbatim>\<open>../services/ideaService\<close> is not part of the sources at
  hand. The spec (sections 3, 4.3 and 6) gives the store three operations, each reporting
  success or failure: a query by status, a status update, and the submission of an assessment,
  which marks the idea assessed and persists the record as one unit; a failed call leaves the
  statuses as they were. The spec does not say when a call fails: \<open>outages\<close> lists, for the
  calls to come, whether each one fails, and a store with no entry left answers every call.
\<close>

record idea_store =
  ideas :: "idea list"
  assessments :: "(string \<times> assessment) list"
  outages :: "bool list"

text \<open>
  Modelled from the spec: whether the next call to the store succeeds (section 6 gives every
  operation a success or failure result); the head of \<open>outages\<close> decides and is used up.
\<close>

definition attempt :: "idea_store \<Rightarrow> bool \<times> idea_store" where
  "attempt st =
     (case outages st of
        [] \<Rightarrow> (True, st)
      | down # rest \<Rightarrow> (\<not> down, st\<lparr>outages := rest\<rparr>))"

text \<open>
  Modelled from the spec: the status write behind \<^verbatim>\<open>updateStatus\<close> and behind the submission;
  the idea with the given identifier gets the new status, every other idea is kept.
\<close>

definition set_status :: "string \<Rightarrow> idea_status \<Rightarrow> idea list \<Rightarrow> idea list" where
  "set_status k s xs = map (\<lambda>i. if idea_id i = k then i\<lparr>status := s\<rparr> else i) xs"

text \<open>
  Modelled from the spec: \<^verbatim>\<open>queryByStatus(status)\<close> (section 6), the stored ideas that have the
  status, in the store's order.
\<close>

definition queryByStatus :: "idea_status \<Rightarrow> idea_store \<Rightarrow> idea list promise \<times> idea_store" where
  "queryByStatus s st =
     (case attempt st of
        (ok, st1) \<Rightarrow>
          if ok then (Resolved (filter (\<lambda>i. status i = s) (ideas st1)), st1)
          else (Failed, st1))"

text \<open>Modelled from the spec: \<^verbatim>\<open>updateStatus(ideaId, newStatus)\<close> (section 6).\<close>

definition updateStatus ::
  "string \<Rightarrow> idea_status \<Rightarrow> idea_store \<Rightarrow> unit promise \<times> idea_store" where
  "updateStatus k s st =
     (case attempt st of
        (ok, st1) \<Rightarrow>
          if ok then (Resolved (), st1\<lparr>ideas := set_status k s (ideas st1)\<rparr>)
          else (Failed, st1))"

text \<open>
  Modelled from the spec: \<^verbatim>\<open>submitAssessment(ideaId, record)\<close> (sections 4.3 and 6), which marks
  the idea assessed and persists the record as one unit.
\<close>

definition submitRecord ::
  "string \<Rightarrow> assessment \<Rightarrow> idea_store \<Rightarrow> unit promise \<times> idea_store" where
  "submitRecord k a st =
     (case attempt st of
        (ok, st1) \<Rightarrow>
          if ok
          then (Resolved (),
                st1\<lparr>ideas := set_status k Assessed (ideas st1),
                    assessments := assessments st1 @ [(k, a)]\<rparr>)
          else (Failed, st1))"

text \<open>
  Modelled from the spec: the three operations as the methods of \<^verbatim>\<open>ideaService\<close> that the page
  calls.
\<close>

definition store_service :: "idea_store idea_service" where
  "store_service =
     \<lparr>getIdeasByStatus = queryByStatus, updateIdeaStatus = updateStatus,
      submitAssessment = submitRecord\<rparr>"

text \<open>The order of the path submitted, under review, assessed.\<close>

fun earlier :: "idea_status \<Rightarrow> idea_status \<Rightarrow> bool" where
  "earlier Submitted UnderReview = True"
| "earlier Submitted Assessed = True"
| "earlier UnderReview Assessed = True"
| "earlier a b = False"

text \<open>The statuses a pending idea can have.\<close>

definition pending_ok :: "'s page \<Rightarrow> bool" where
  "pending_ok w = list_all (\<lambda>i. status i = Submitted \<or> status i = UnderReview) (pendingIdeas w)"

subsection \<open>Example data\<close>

definition example_idea :: "string \<Rightarrow> idea_status \<Rightarrow> idea" where
  "example_idea k s =
     \<lparr>idea_id = k, status = s, title = ''Idea '' @ k, description = ''d'',
      expectedBenefits = ''b'', aiCapabilityArea = ''a'', businessFunction = ''f'',
      submitterName = ''n'', createdAt = ''2024-01-01''\<rparr>"

definition example_store :: idea_store where
  "example_store =
     \<lparr>ideas = [example_idea ''I1'' Submitted, example_idea ''I2'' UnderReview,
               example_idea ''I3'' Assessed, example_idea ''I4'' Rejected],
      assessments = [], outages = []\<rparr>"

text \<open>The fully scored draft of the spec's scenario (section 8).\<close>

definition example_scores :: "string \<rightharpoonup> score_level" where
  "example_scores =
     [''businessGrowth'' \<mapsto> High, ''costEfficiency'' \<mapsto> Medium,
      ''businessResilience'' \<mapsto> High, ''businessAgility'' \<mapsto> Medium,
      ''technicalFeasibility'' \<mapsto> High, ''internalReadiness'' \<mapsto> Medium,
      ''externalReadiness'' \<mapsto> High]"

text \<open>A page on which the idea \<open>i\<close> is selected and the draft holds the given scores.\<close>

definition example_page :: "idea \<Rightarrow> (string \<rightharpoonup> score_level) \<Rightarrow> 's \<Rightarrow> 's page" where
  "example_page i sc st =
     \<lparr>pendingIdeas = [i], loading = False, selectedIdea = Some i, submitting = False,
      scores = sc, rationales = [''businessGrowth'' \<mapsto> ''new market''], toasts = [],
      calls = [], store = st\<rparr>"

text \<open>The same draft with six of the seven dimensions scored.\<close>

definition partial_scores :: "string \<rightharpoonup> score_level" where
  "partial_scores = example_scores(''externalReadiness'' := None)"

text \<open>A store whose next call fails.\<close>

definition failing_store :: idea_store where
  "failing_store = example_store\<lparr>outages := [True]\<rparr>"

text \<open>Edits that score every dimension, one of them twice, in no particular order.\<close>

definition example_edits :: "draft_edit list" where
  "example_edits =
     [SetScore ''externalReadiness'' Low, SetScore ''businessGrowth'' High,
      SetScore ''internalReadiness'' Medium, SetScore ''costEfficiency'' Medium,
      SetRationale ''businessGrowth'' ''new market'',
      SetScore ''externalReadiness'' High, SetScore ''technicalFeasibility'' High,
      SetScore ''businessAgility'' Medium, SetScore ''businessResilience'' High]"

text \<open>The page on which the submission of that draft is outstanding.\<close>

definition example_outstanding :: "idea_store page" where
  "example_outstanding =
     snd (call_store
       (SubmitAssessment ''I2''
          (assessment_of
             (example_page (example_idea ''I2'' UnderReview) example_scores example_store)))
       (submitRecord ''I2''
          (assessment_of
             (example_page (example_idea ''I2'' UnderReview) example_scores example_store)))
       ((example_page (example_idea ''I2'' UnderReview) example_scores example_store)
          \<lparr>submitting := True\<rparr>))"

text \<open>A store that answers two calls and fails the third.\<close>

definition flaky_store :: idea_store where
  "flaky_store = example_store\<lparr>outages := [False, False, True]\<rparr>"

text \<open>
  A visit over that store. The page is mounted and the assessor clicks the card of the first
  idea; the status update fails, so the list is not refreshed.
\<close>

definition stale_opened :: "idea_store page" where
  "stale_opened =
     handleSelectIdea store_service (example_idea ''I1'' Submitted)
       (mount store_service flaky_store)"

text \<open>The assessor scores every dimension.\<close>

definition stale_scored :: "idea_store page" where
  "stale_scored = foldl apply_edit stale_opened example_edits"

text \<open>The assessor clicks Submit; this is the page while that call is outstanding.\<close>

definition stale_outstanding :: "idea_store page" where
  "stale_outstanding =
     snd (call_store
       (SubmitAssessment ''I1'' (assessment_of stale_scored))
       (submitRecord ''I1'' (assessment_of stale_scored))
       (stale_scored\<lparr>submitting := True\<rparr>))"

section \<open>Properties\<close>

subsection \<open>Auxiliary facts\<close>

lemma call_store_eq:
  "call_store c f w =
     (fst (f (store w)), w\<lparr>calls := calls w @ [c], store := snd (f (store w))\<rparr>)"
  by (simp add: call_store_def split: prod.splits)

lemma fetch_cells:
  "selectedIdea (fetchPendingIdeas svc w) = selectedIdea w"
  "scores (fetchPendingIdeas svc w) = scores w"
  "rationales (fetchPendingIdeas svc w) = rationales w"
  "submitting (fetchPendingIdeas svc w) = submitting w"
  "toasts (fetchPendingIdeas svc w) = toasts w"
  by (simp_all add: fetchPendingIdeas_def call_store_eq split: prod.splits promise.splits)

lemma fetch_calls:
  "calls (fetchPendingIdeas svc w) =
     calls w @ GetIdeasByStatus Submitted #
       (case fst (getIdeasByStatus svc Submitted (store w)) of
          Resolved xs \<Rightarrow> [GetIdeasByStatus UnderReview] | Failed \<Rightarrow> [])"
  by (simp add: fetchPendingIdeas_def call_store_eq split: prod.splits promise.splits)

lemma fetch_writes:
  "filter is_write (calls (fetchPendingIdeas svc w)) = filter is_write (calls w)"
  by (simp add: fetch_calls split: promise.splits)

lemma isComplete_iff:
  "isComplete w \<longleftrightarrow> (\<forall>d \<in> set requiredDimensions. scores w d \<noteq> None)"
proof -
  have "truthy x \<longleftrightarrow> x \<noteq> None" for x
    by (cases x rule: truthy.cases) simp_all
  then show ?thesis
    by (simp add: isComplete_def list_all_iff)
qed

lemma complete_record:
  assumes "isComplete w"
  shows "\<exists>g c r a t n e.
           scores w ''businessGrowth'' = Some g \<and> scores w ''costEfficiency'' = Some c \<and>
           scores w ''businessResilience'' = Some r \<and> scores w ''businessAgility'' = Some a \<and>
           scores w ''technicalFeasibility'' = Some t \<and> scores w ''internalReadiness'' = Some n \<and>
           scores w ''externalReadiness'' = Some e \<and>
           assessment_of w =
             \<lparr>businessGrowth = Some g, costEfficiency = Some c, businessResilience = Some r,
              businessAgility = Some a, technicalFeasibility = Some t, internalReadiness = Some n,
              externalReadiness = Some e, assessment_rationales = rationales w,
              assessedBy = ''Assessment Team''\<rparr>"
proof -
  from assms have "\<forall>d \<in> set requiredDimensions. \<exists>l. scores w d = Some l"
    by (simp add: isComplete_iff)
  then obtain g c r a t n e where
    "scores w ''businessGrowth'' = Some g" "scores w ''costEfficiency'' = Some c"
    "scores w ''businessResilience'' = Some r" "scores w ''businessAgility'' = Some a"
    "scores w ''technicalFeasibility'' = Some t" "scores w ''internalReadiness'' = Some n"
    "scores w ''externalReadiness'' = Some e"
    unfolding requiredDimensions_def by auto
  then show ?thesis
    by (simp add: assessment_of_def)
qed

lemma scores_after_edits:
  "scores (foldl apply_edit w es) d \<noteq> None \<longleftrightarrow>
     scores w d \<noteq> None \<or> (\<exists>l. SetScore d l \<in> set es)"
proof (induction es arbitrary: w)
  case Nil
  then show ?case by simp
next
  case (Cons e es)
  show ?case
  proof (cases e)
    case (SetScore d' l')
    then show ?thesis
      using Cons.IH [of "handleScoreChange d' l' w"]
      by (auto simp add: handleScoreChange_def)
  next
    case (SetRationale d' t')
    then show ?thesis
      using Cons.IH [of "handleRationaleChange d' t' w"]
      by (auto simp add: handleRationaleChange_def)
  qed
qed

lemma select_cells:
  "selectedIdea (handleSelectIdea svc i w) = Some i"
  "scores (handleSelectIdea svc i w) = Map.empty"
  "rationales (handleSelectIdea svc i w) = Map.empty"
  by (simp_all add: handleSelectIdea_def call_store_eq fetch_cells Let_def
      split: prod.splits promise.splits)

lemma fetch_submissions:
  "filter is_submission (calls (fetchPendingIdeas svc w)) = filter is_submission (calls w)"
  by (simp add: fetch_calls split: promise.splits)

lemma example_complete: "isComplete (example_page i example_scores st)"
  by (simp add: isComplete_def requiredDimensions_def example_page_def example_scores_def)

lemma partial_incomplete: "\<not> isComplete (example_page i partial_scores st)"
  by (simp add: isComplete_def requiredDimensions_def example_page_def example_scores_def
      partial_scores_def)

subsection \<open>Submitting an assessment\<close>

text \<open>
  C1. When \<^verbatim>\<open>handleSubmitAssessment\<close> runs with an idea selected and a complete draft, it calls
  the service's \<^verbatim>\<open>submitAssessment\<close> for the selected idea with a record that holds the draft's
  score for each of the seven dimensions, the rationale mapping, and \<^verbatim>\<open>assessedBy\<close> set to the
  attribution, which the handler fixes to the string "Assessment Team". Once that call has
  resolved the handler shows the success toast, clears the selection, the scores and the
  rationales, and runs \<^verbatim>\<open>fetchPendingIdeas\<close>, whose first query follows the submission in the
  log of calls.
\<close>

theorem submitAssessment_success:
  assumes "selectedIdea w = Some i" and "isComplete w"
    and "submitAssessment svc (idea_id i) (assessment_of w) (store w) = (Resolved u, st)"
  shows "handleSubmitAssessment svc w =
           (fetchPendingIdeas svc
              (w\<lparr>submitting := True,
                 calls := calls w @ [SubmitAssessment (idea_id i) (assessment_of w)],
                 store := st,
                 toasts := toasts w @ [(assessed_message i, Success)],
                 selectedIdea := None, scores := Map.empty, rationales := Map.empty\<rparr>))
           \<lparr>submitting := False\<rparr>
         \<and> selectedIdea (handleSubmitAssessment svc w) = None
         \<and> scores (handleSubmitAssessment svc w) = Map.empty
         \<and> rationales (handleSubmitAssessment svc w) = Map.empty
         \<and> (\<exists>rest. calls (handleSubmitAssessment svc w) =
               calls w @ SubmitAssessment (idea_id i) (assessment_of w) #
                 GetIdeasByStatus Submitted # rest)
         \<and> (\<exists>g c r a t n e.
               scores w ''businessGrowth'' = Some g \<and> scores w ''costEfficiency'' = Some c \<and>
               scores w ''businessResilience'' = Some r \<and> scores w ''businessAgility'' = Some a \<and>
               scores w ''technicalFeasibility'' = Some t \<and>
               scores w ''internalReadiness'' = Some n \<and>
               scores w ''externalReadiness'' = Some e \<and>
               assessment_of w =
                 \<lparr>businessGrowth = Some g, costEfficiency = Some c, businessResilience = Some r,
                  businessAgility = Some a, technicalFeasibility = Some t,
                  internalReadiness = Some n, externalReadiness = Some e,
                  assessment_rationales = rationales w, assessedBy = ''Assessment Team''\<rparr>)"
proof -
  have eq: "handleSubmitAssessment svc w =
           (fetchPendingIdeas svc
              (w\<lparr>submitting := True,
                 calls := calls w @ [SubmitAssessment (idea_id i) (assessment_of w)],
                 store := st,
                 toasts := toasts w @ [(assessed_message i, Success)],
                 selectedIdea := None, scores := Map.empty, rationales := Map.empty\<rparr>))
           \<lparr>submitting := False\<rparr>"
    using assms
    by (simp add: handleSubmitAssessment_def handleSubmitAssessment_dispatch_def
        handleSubmitAssessment_settle_def call_store_eq showToast_def)
  have cells: "selectedIdea (handleSubmitAssessment svc w) = None"
    "scores (handleSubmitAssessment svc w) = Map.empty"
    "rationales (handleSubmitAssessment svc w) = Map.empty"
    by (simp_all add: eq fetch_cells)
  have log: "\<exists>rest. calls (handleSubmitAssessment svc w) =
               calls w @ SubmitAssessment (idea_id i) (assessment_of w) #
                 GetIdeasByStatus Submitted # rest"
    by (simp add: eq fetch_calls)
  from eq cells log complete_record [OF assms(2)] show ?thesis
    by blast
qed

theorem submitAssessment_success_witness:
  "selectedIdea (handleSubmitAssessment store_service
        (example_page (example_idea ''I2'' UnderReview) example_scores example_store)) = None
   \<and> calls (handleSubmitAssessment store_service
        (example_page (example_idea ''I2'' UnderReview) example_scores example_store)) =
       [SubmitAssessment ''I2''
          (assessment_of
             (example_page (example_idea ''I2'' UnderReview) example_scores example_store)),
        GetIdeasByStatus Submitted, GetIdeasByStatus UnderReview]"
proof -
  let ?i = "example_idea ''I2'' UnderReview"
  let ?w = "example_page ?i example_scores example_store"
  have sel: "selectedIdea ?w = Some ?i"
    by (simp add: example_page_def)
  have sub: "submitAssessment store_service (idea_id ?i) (assessment_of ?w) (store ?w) =
      (Resolved (),
       example_store\<lparr>ideas := set_status ''I2'' Assessed (ideas example_store),
         assessments := [(''I2'', assessment_of ?w)]\<rparr>)"
    by (simp add: store_service_def submitRecord_def attempt_def example_store_def
        example_page_def example_idea_def)
  show ?thesis
    using submitAssessment_success [OF sel example_complete sub]
    by (simp add: fetch_cells fetch_calls store_service_def queryByStatus_def attempt_def
        example_store_def example_page_def example_idea_def)
qed

text \<open>
  C2. Whenever \<^verbatim>\<open>handleSubmitAssessment\<close> is called with no idea selected, or with a draft
  that is not complete, it returns at the guard: the only effect is the warning toast "Please
  score all dimensions before submitting" (the validation error), no call reaches the service
  and the store is as it was.
\<close>

theorem submitAssessment_refused:
  assumes "selectedIdea w = None \<or> \<not> isComplete w"
  shows "handleSubmitAssessment svc w =
           showToast ''Please score all dimensions before submitting'' Warning w
         \<and> handleSubmitAssessment_dispatch svc w = Inl (handleSubmitAssessment svc w)
         \<and> calls (handleSubmitAssessment svc w) = calls w
         \<and> store (handleSubmitAssessment svc w) = store w"
  using assms
  by (auto simp add: handleSubmitAssessment_def handleSubmitAssessment_dispatch_def
      showToast_def split: option.splits)

theorem submitAssessment_refused_witness:
  "\<not> isComplete (example_page (example_idea ''I2'' UnderReview) partial_scores example_store)
   \<and> toasts (handleSubmitAssessment store_service
        (example_page (example_idea ''I2'' UnderReview) partial_scores example_store)) =
       [(''Please score all dimensions before submitting'', Warning)]
   \<and> calls (handleSubmitAssessment store_service
        (example_page (example_idea ''I2'' UnderReview) partial_scores example_store)) = []"
  using submitAssessment_refused
      [of "example_page (example_idea ''I2'' UnderReview) partial_scores example_store"
        store_service]
    partial_incomplete [of "example_idea ''I2'' UnderReview" example_store]
  by (simp add: showToast_def example_page_def)

text \<open>
  C3. If the service's \<^verbatim>\<open>submitAssessment\<close> call fails, \<^verbatim>\<open>handleSubmitAssessment\<close> shows the error
  toast "Failed to submit assessment" (the submission error); the scores, the rationales and
  the selection are those from before the call, and the pending list is not refreshed: the
  submission is the only call that was issued, and the list and the loading flag are untouched.
\<close>

theorem submitAssessment_store_failure:
  assumes "selectedIdea w = Some i" and "isComplete w"
    and "submitAssessment svc (idea_id i) (assessment_of w) (store w) = (Failed, st)"
  shows "handleSubmitAssessment svc w =
           w\<lparr>submitting := False,
             toasts := toasts w @ [(''Failed to submit assessment'', Error)],
             calls := calls w @ [SubmitAssessment (idea_id i) (assessment_of w)],
             store := st\<rparr>
         \<and> toasts (handleSubmitAssessment svc w) =
             toasts w @ [(''Failed to submit assessment'', Error)]
         \<and> scores (handleSubmitAssessment svc w) = scores w
         \<and> rationales (handleSubmitAssessment svc w) = rationales w
         \<and> selectedIdea (handleSubmitAssessment svc w) = selectedIdea w
         \<and> pendingIdeas (handleSubmitAssessment svc w) = pendingIdeas w
         \<and> loading (handleSubmitAssessment svc w) = loading w
         \<and> calls (handleSubmitAssessment svc w) =
             calls w @ [SubmitAssessment (idea_id i) (assessment_of w)]"
  using assms
  by (simp add: handleSubmitAssessment_def handleSubmitAssessment_dispatch_def
      handleSubmitAssessment_settle_def call_store_eq showToast_def)

theorem submitAssessment_store_failure_witness:
  "scores (handleSubmitAssessment store_service
        (example_page (example_idea ''I2'' UnderReview) example_scores failing_store)) =
       example_scores
   \<and> selectedIdea (handleSubmitAssessment store_service
        (example_page (example_idea ''I2'' UnderReview) example_scores failing_store)) =
       Some (example_idea ''I2'' UnderReview)
   \<and> toasts (handleSubmitAssessment store_service
        (example_page (example_idea ''I2'' UnderReview) example_scores failing_store)) =
       [(''Failed to submit assessment'', Error)]
   \<and> calls (handleSubmitAssessment store_service
        (example_page (example_idea ''I2'' UnderReview) example_scores failing_store)) =
       [SubmitAssessment ''I2''
          (assessment_of
             (example_page (example_idea ''I2'' UnderReview) example_scores failing_store))]"
proof -
  let ?i = "example_idea ''I2'' UnderReview"
  let ?w = "example_page ?i example_scores failing_store"
  have sel: "selectedIdea ?w = Some ?i"
    by (simp add: example_page_def)
  have sub: "submitAssessment store_service (idea_id ?i) (assessment_of ?w) (store ?w) =
      (Failed, example_store)"
    by (simp add: store_service_def submitRecord_def attempt_def example_store_def
        example_page_def failing_store_def)
  show ?thesis
    using submitAssessment_store_failure [OF sel example_complete sub]
    by (simp add: example_page_def example_idea_def)
qed

subsection \<open>The draft\<close>

text \<open>
  C4. \<^verbatim>\<open>isComplete()\<close> is true if and only if every one of the seven required dimensions has
  a score. After any sequence of score and rationale edits, in any order and with any
  overwrites, that is the case exactly when each of the seven either had a score before or is
  set by some edit of the sequence; on a fresh draft: when each has been set at least once.
  Rationales play no part: replacing them leaves \<^verbatim>\<open>isComplete()\<close> as it is.
\<close>

theorem isComplete_after_edits:
  "(isComplete (foldl apply_edit w es) \<longleftrightarrow>
      (\<forall>d \<in> set requiredDimensions. scores w d \<noteq> None \<or> (\<exists>l. SetScore d l \<in> set es)))
   \<and> isComplete (w\<lparr>rationales := r\<rparr>) = isComplete w"
proof -
  have "isComplete (foldl apply_edit w es) \<longleftrightarrow>
      (\<forall>d \<in> set requiredDimensions. scores w d \<noteq> None \<or> (\<exists>l. SetScore d l \<in> set es))"
    unfolding isComplete_iff scores_after_edits ..
  moreover have "isComplete (w\<lparr>rationales := r\<rparr>) = isComplete w"
    by (simp add: isComplete_def)
  ultimately show ?thesis
    by (rule conjI)
qed

theorem isComplete_after_edits_witness:
  "isComplete (foldl apply_edit (initial_page ()) example_edits)
   \<and> \<not> isComplete (foldl apply_edit (initial_page ()) (butlast example_edits))"
proof -
  have all: "\<forall>d \<in> set requiredDimensions.
      scores (initial_page ()) d \<noteq> None \<or> (\<exists>l. SetScore d l \<in> set example_edits)"
    by (auto simp add: requiredDimensions_def example_edits_def)
  have but_one: "\<not> (\<forall>d \<in> set requiredDimensions.
      scores (initial_page ()) d \<noteq> None \<or> (\<exists>l. SetScore d l \<in> set (butlast example_edits)))"
    by (simp add: requiredDimensions_def example_edits_def initial_page_def)
  from all but_one show ?thesis
    using isComplete_after_edits [of "initial_page ()" example_edits]
      isComplete_after_edits [of "initial_page ()" "butlast example_edits"]
    by blast
qed

subsection \<open>Selecting an idea\<close>

text \<open>
  C5. \<^verbatim>\<open>handleSelectIdea\<close> always leaves the idea selected and the scores and rationales
  empty. For an idea whose status is submitted it issues exactly one write, the status update
  to under review, and runs \<^verbatim>\<open>fetchPendingIdeas\<close> once that update has resolved. For an idea
  with any other status, under review in particular, it issues no call at all and the store
  is as it was, so selecting such an idea again never changes its status.
\<close>

theorem selectIdea_effects:
  "selectedIdea (handleSelectIdea svc i w) = Some i
   \<and> scores (handleSelectIdea svc i w) = Map.empty
   \<and> rationales (handleSelectIdea svc i w) = Map.empty
   \<and> (status i = Submitted \<longrightarrow>
        filter is_write (calls (handleSelectIdea svc i w)) =
          filter is_write (calls w) @ [UpdateIdeaStatus (idea_id i) UnderReview]
        \<and> handleSelectIdea svc i w =
            (case updateIdeaStatus svc (idea_id i) UnderReview (store w) of
               (r, st) \<Rightarrow>
                 (let w1 = w\<lparr>selectedIdea := Some i, scores := Map.empty,
                              rationales := Map.empty,
                              calls := calls w @ [UpdateIdeaStatus (idea_id i) UnderReview],
                              store := st\<rparr>
                  in (case r of Resolved u \<Rightarrow> fetchPendingIdeas svc w1 | Failed \<Rightarrow> w1))))
   \<and> (status i \<noteq> Submitted \<longrightarrow>
        calls (handleSelectIdea svc i w) = calls w
        \<and> store (handleSelectIdea svc i w) = store w
        \<and> pendingIdeas (handleSelectIdea svc i w) = pendingIdeas w)"
proof -
  have a: "filter is_write (calls (handleSelectIdea svc i w)) =
          filter is_write (calls w) @ [UpdateIdeaStatus (idea_id i) UnderReview]"
    if "status i = Submitted"
    using that
    by (simp add: handleSelectIdea_def call_store_eq Let_def fetch_writes
        split: promise.splits prod.splits)
  have b: "handleSelectIdea svc i w =
            (case updateIdeaStatus svc (idea_id i) UnderReview (store w) of
               (r, st) \<Rightarrow>
                 (let w1 = w\<lparr>selectedIdea := Some i, scores := Map.empty,
                              rationales := Map.empty,
                              calls := calls w @ [UpdateIdeaStatus (idea_id i) UnderReview],
                              store := st\<rparr>
                  in (case r of Resolved u \<Rightarrow> fetchPendingIdeas svc w1 | Failed \<Rightarrow> w1)))"
    if "status i = Submitted"
    using that
    by (simp add: handleSelectIdea_def call_store_eq Let_def split: promise.splits prod.splits)
  have c: "calls (handleSelectIdea svc i w) = calls w
        \<and> store (handleSelectIdea svc i w) = store w
        \<and> pendingIdeas (handleSelectIdea svc i w) = pendingIdeas w"
    if "status i \<noteq> Submitted"
    using that by (simp add: handleSelectIdea_def)
  from a b c select_cells [of svc i w] show ?thesis
    by blast
qed

theorem selectIdea_effects_witness:
  "calls (handleSelectIdea store_service (example_idea ''I1'' Submitted)
       (example_page (example_idea ''I2'' UnderReview) example_scores example_store)) =
     [UpdateIdeaStatus ''I1'' UnderReview, GetIdeasByStatus Submitted,
      GetIdeasByStatus UnderReview]
   \<and> calls (handleSelectIdea store_service (example_idea ''I2'' UnderReview)
       (example_page (example_idea ''I2'' UnderReview) example_scores example_store)) = []
   \<and> store (handleSelectIdea store_service (example_idea ''I2'' UnderReview)
       (example_page (example_idea ''I2'' UnderReview) example_scores example_store)) =
       example_store
   \<and> scores (handleSelectIdea store_service (example_idea ''I2'' UnderReview)
       (example_page (example_idea ''I2'' UnderReview) example_scores example_store)) =
       Map.empty"
proof -
  let ?w = "example_page (example_idea ''I2'' UnderReview) example_scores example_store"
  have s1: "status (example_idea ''I1'' Submitted) = Submitted"
    and s2: "status (example_idea ''I2'' UnderReview) \<noteq> Submitted"
    by (simp_all add: example_idea_def)
  have u: "updateIdeaStatus store_service ''I1'' UnderReview example_store =
      (Resolved (), example_store\<lparr>ideas := set_status ''I1'' UnderReview (ideas example_store)\<rparr>)"
    by (simp add: store_service_def updateStatus_def attempt_def example_store_def)
  have id1: "idea_id (example_idea ''I1'' Submitted) = ''I1''"
    by (simp add: example_idea_def)
  have st: "store ?w = example_store" "calls ?w = []"
    by (simp_all add: example_page_def)
  have e1: "handleSelectIdea store_service (example_idea ''I1'' Submitted) ?w =
      fetchPendingIdeas store_service
        (?w\<lparr>selectedIdea := Some (example_idea ''I1'' Submitted), scores := Map.empty,
            rationales := Map.empty, calls := [UpdateIdeaStatus ''I1'' UnderReview],
            store := example_store\<lparr>ideas := set_status ''I1'' UnderReview (ideas example_store)\<rparr>\<rparr>)"
    using selectIdea_effects [of store_service "example_idea ''I1'' Submitted" ?w]
    by (simp add: s1 u id1 st)
  have e2: "calls (handleSelectIdea store_service (example_idea ''I2'' UnderReview) ?w) = []"
    "store (handleSelectIdea store_service (example_idea ''I2'' UnderReview) ?w) = example_store"
    "scores (handleSelectIdea store_service (example_idea ''I2'' UnderReview) ?w) = Map.empty"
    using selectIdea_effects [of store_service "example_idea ''I2'' UnderReview" ?w]
    by (simp_all add: s2 st)
  have "calls (handleSelectIdea store_service (example_idea ''I1'' Submitted) ?w) =
     [UpdateIdeaStatus ''I1'' UnderReview, GetIdeasByStatus Submitted,
      GetIdeasByStatus UnderReview]"
    by (subst e1)
      (simp add: fetch_calls store_service_def queryByStatus_def attempt_def example_store_def)
  with e2 show ?thesis
    by simp
qed

subsection \<open>Cancelling\<close>

text \<open>
  C6, as the claim states it, fails: the Cancel button only clears the selection. On a page
  with a scored draft the scores and rationales are still there after the click.
\<close>

theorem cancelSelection_keeps_draft:
  "scores (cancelSelection
       (example_page (example_idea ''I2'' UnderReview) example_scores example_store))
     ''businessGrowth'' = Some High
   \<and> rationales (cancelSelection
       (example_page (example_idea ''I2'' UnderReview) example_scores example_store))
     ''businessGrowth'' = Some ''new market''"
  by (simp add: cancelSelection_def example_page_def example_scores_def)

text \<open>
  C6, amended. The Cancel button clears the selection and issues no call to the service, so
  the store is as it was. It leaves the scores and rationales of the draft in place; they
  are emptied by the next \<^verbatim>\<open>handleSelectIdea\<close>, and with no idea selected a submission is
  refused without a call.
\<close>

theorem cancelSelection_effects:
  "selectedIdea (cancelSelection w) = None
   \<and> scores (cancelSelection w) = scores w
   \<and> rationales (cancelSelection w) = rationales w
   \<and> pendingIdeas (cancelSelection w) = pendingIdeas w
   \<and> calls (cancelSelection w) = calls w
   \<and> store (cancelSelection w) = store w
   \<and> scores (handleSelectIdea svc i (cancelSelection w)) = Map.empty
   \<and> rationales (handleSelectIdea svc i (cancelSelection w)) = Map.empty
   \<and> calls (handleSubmitAssessment svc (cancelSelection w)) = calls w"
  by (simp add: cancelSelection_def select_cells handleSubmitAssessment_def
      handleSubmitAssessment_dispatch_def showToast_def)

subsection \<open>Dimensions outside the seven\<close>

text \<open>
  C7, as the claim states it, fails: the handlers take any string as the dimension. A score
  and a rationale for the key "priority", which is none of the seven, are stored and nothing
  is reported.
\<close>

theorem handleScoreChange_outside_dimension:
  "''priority'' \<notin> set requiredDimensions
   \<and> scores (handleScoreChange ''priority'' High (initial_page ())) ''priority'' = Some High
   \<and> rationales (handleRationaleChange ''priority'' ''urgent'' (initial_page ())) ''priority'' =
       Some ''urgent''
   \<and> toasts (handleScoreChange ''priority'' High (initial_page ())) = []
   \<and> toasts (handleRationaleChange ''priority'' ''urgent'' (initial_page ())) = []"
  by (simp add: requiredDimensions_def handleScoreChange_def handleRationaleChange_def
      initial_page_def)

text \<open>
  C7, amended. Setting a score or a rationale for a dimension outside the seven is accepted:
  the value is stored in the draft under that key and no toast is shown. Such a key never
  counts towards \<^verbatim>\<open>isComplete()\<close>.
\<close>

theorem outside_dimension_accepted:
  assumes "d \<notin> set requiredDimensions"
  shows "scores (handleScoreChange d l w) d = Some l
     \<and> rationales (handleRationaleChange d t w) d = Some t
     \<and> toasts (handleScoreChange d l w) = toasts w
     \<and> toasts (handleRationaleChange d t w) = toasts w
     \<and> isComplete (handleScoreChange d l w) = isComplete w
     \<and> isComplete (handleRationaleChange d t w) = isComplete w"
proof -
  have "list_all (\<lambda>dim. truthy (if dim = d then Some l else scores w dim)) requiredDimensions =
        list_all (\<lambda>dim. truthy (scores w dim)) requiredDimensions"
    using assms by (intro list.pred_cong) auto
  then show ?thesis
  by (simp add: handleScoreChange_def handleRationaleChange_def isComplete_def fun_upd_def)
qed

theorem outside_dimension_accepted_witness:
  "''priority'' \<notin> set requiredDimensions
   \<and> scores (handleScoreChange ''priority'' High
        (example_page (example_idea ''I2'' UnderReview) partial_scores example_store))
       ''priority'' = Some High
   \<and> \<not> isComplete (handleScoreChange ''priority'' High
        (example_page (example_idea ''I2'' UnderReview) partial_scores example_store))"
proof -
  have out: "''priority'' \<notin> set requiredDimensions"
    by (simp add: requiredDimensions_def)
  show ?thesis
    using outside_dimension_accepted [OF out, of High
        "example_page (example_idea ''I2'' UnderReview) partial_scores example_store"]
      partial_incomplete [of "example_idea ''I2'' UnderReview" example_store] out
    by simp
qed

subsection \<open>A submission that is outstanding\<close>

lemma second_dispatch:
  assumes "handleSubmitAssessment_dispatch svc w = Inr (i, r, w1)"
  shows "handleSubmitAssessment_dispatch svc w1 =
           Inr (i, fst (submitAssessment svc (idea_id i) (assessment_of w) (store w1)),
                w1\<lparr>calls := calls w @ [SubmitAssessment (idea_id i) (assessment_of w),
                                        SubmitAssessment (idea_id i) (assessment_of w)],
                   store := snd (submitAssessment svc (idea_id i) (assessment_of w) (store w1))\<rparr>)"
proof -
  from assms have sel: "selectedIdea w = Some i" and c: "isComplete w"
    and w1: "w1 = w\<lparr>submitting := True,
              calls := calls w @ [SubmitAssessment (idea_id i) (assessment_of w)],
              store := snd (submitAssessment svc (idea_id i) (assessment_of w) (store w))\<rparr>"
    by (auto simp add: handleSubmitAssessment_dispatch_def call_store_eq
        split: option.splits if_splits)
  have a: "assessment_of w1 = assessment_of w"
    by (simp add: w1 assessment_of_def)
  have c1: "isComplete w1"
    using c by (simp add: w1 isComplete_def)
  have s1: "selectedIdea w1 = Some i"
    using sel by (simp add: w1)
  show ?thesis
    using c1 s1
    by (simp add: handleSubmitAssessment_dispatch_def call_store_eq a)
      (simp add: w1)
qed

lemma outstanding_button_disabled: "submitting w \<Longrightarrow> submit_disabled w"
  by (simp add: submit_disabled_def)

text \<open>
  C10 fails on the code. \<^verbatim>\<open>handleSubmitAssessment\<close> sets \<^verbatim>\<open>submitting\<close> before its call, and
  the Submit button is disabled by that flag once the page is rendered again, but the handler
  itself never reads the flag. On the example page with a complete draft the first call is
  outstanding and \<^verbatim>\<open>submitting\<close> is set; the handler, invoked again before that call has
  settled, passes its guard and calls \<^verbatim>\<open>submitAssessment\<close> a second time for the same idea with
  the same record: the log holds the submission twice and the store has persisted two records.
\<close>

theorem submit_dispatched_twice:
  "handleSubmitAssessment_dispatch store_service
       (example_page (example_idea ''I2'' UnderReview) example_scores example_store) =
     Inr (example_idea ''I2'' UnderReview, Resolved (), example_outstanding)
   \<and> submitting example_outstanding
   \<and> filter is_submission (calls example_outstanding) =
       [SubmitAssessment ''I2''
          (assessment_of
             (example_page (example_idea ''I2'' UnderReview) example_scores example_store))]
   \<and> filter is_submission
        (calls (handleSubmitAssessment store_service example_outstanding)) =
       [SubmitAssessment ''I2''
          (assessment_of
             (example_page (example_idea ''I2'' UnderReview) example_scores example_store)),
        SubmitAssessment ''I2''
          (assessment_of
             (example_page (example_idea ''I2'' UnderReview) example_scores example_store))]
   \<and> map fst (assessments (store (handleSubmitAssessment store_service example_outstanding))) =
       [''I2'', ''I2'']"
proof -
  let ?i = "example_idea ''I2'' UnderReview"
  let ?w = "example_page ?i example_scores example_store"
  let ?a = "assessment_of ?w"
  have sel: "selectedIdea ?w = Some ?i"
    by (simp add: example_page_def)
  have ok: "fst (submitRecord ''I2'' ?a example_store) = Resolved ()"
    by (simp add: submitRecord_def attempt_def example_store_def)
  have cells: "store ?w = example_store" "calls ?w = []"
    by (simp_all add: example_page_def)
  have id2: "idea_id ?i = ''I2''"
    by (simp add: example_idea_def)
  have d: "handleSubmitAssessment_dispatch store_service ?w = Inr (?i, Resolved (), example_outstanding)"
    using sel ok cells example_complete [of ?i example_store]
    by (simp add: handleSubmitAssessment_dispatch_def id2 store_service_def call_store_eq
        example_outstanding_def)
  have out: "example_outstanding =
      ?w\<lparr>submitting := True, calls := [SubmitAssessment ''I2'' ?a],
         store := snd (submitRecord ''I2'' ?a example_store)\<rparr>"
    by (simp add: example_outstanding_def call_store_eq cells)
  have sub: "submitting example_outstanding"
    by (simp add: out)
  have one: "filter is_submission (calls example_outstanding) = [SubmitAssessment ''I2'' ?a]"
    by (simp add: out)
  have ok2: "fst (submitRecord ''I2'' ?a (store example_outstanding)) = Resolved ()"
    by (simp add: out submitRecord_def attempt_def example_store_def)
  note d2 = second_dispatch [OF d, unfolded id2 cells]
  have d2': "handleSubmitAssessment_dispatch store_service example_outstanding =
      Inr (?i, Resolved (),
           example_outstanding\<lparr>calls := [SubmitAssessment ''I2'' ?a, SubmitAssessment ''I2'' ?a],
             store := snd (submitRecord ''I2'' ?a (store example_outstanding))\<rparr>)"
    using d2 ok2 by (simp add: store_service_def)
  have two: "filter is_submission (calls (handleSubmitAssessment store_service example_outstanding)) =
      [SubmitAssessment ''I2'' ?a, SubmitAssessment ''I2'' ?a]"
    by (simp add: handleSubmitAssessment_def d2' handleSubmitAssessment_settle_def
        fetch_submissions showToast_def)
  have recs: "map fst (assessments (store (handleSubmitAssessment store_service example_outstanding))) =
      [''I2'', ''I2'']"
    by code_simp
  from d sub one two recs show ?thesis
    by simp
qed

section \<open>The page over the idea store\<close>

subsection \<open>The store's operations\<close>

lemma attempt_ideas: "ideas (snd (attempt st)) = ideas st"
  by (simp add: attempt_def split: list.splits)

lemma query_ideas: "ideas (snd (queryByStatus s st)) = ideas st"
  using attempt_ideas [of st]
  by (cases "attempt st") (simp add: queryByStatus_def)

lemma query_result:
  "fst (queryByStatus s st) = Resolved xs \<Longrightarrow> xs = filter (\<lambda>i. status i = s) (ideas st)"
  using attempt_ideas [of st]
  by (cases "attempt st") (auto simp add: queryByStatus_def split: if_splits)

lemma update_ideas:
  "ideas (snd (updateStatus k s st)) =
     (case fst (updateStatus k s st) of
        Resolved u \<Rightarrow> set_status k s (ideas st) | Failed \<Rightarrow> ideas st)"
  using attempt_ideas [of st]
  by (cases "attempt st") (simp add: updateStatus_def)

subsection \<open>Fetching from the store\<close>

lemma fetch_store_ideas:
  "ideas (store (fetchPendingIdeas store_service w)) = ideas (store w)"
  by (simp add: fetchPendingIdeas_def call_store_eq store_service_def query_ideas
      split: prod.splits promise.splits)

lemma fetch_store_pending:
  "pendingIdeas (fetchPendingIdeas store_service w) =
     (if loading (fetchPendingIdeas store_service w) then pendingIdeas w
      else filter (\<lambda>i. status i = Submitted) (ideas (store w)) @
           filter (\<lambda>i. status i = UnderReview) (ideas (store w)))"
proof (cases "fst (queryByStatus Submitted (store w))")
  case Failed
  then show ?thesis
    by (simp add: fetchPendingIdeas_def call_store_eq store_service_def)
next
  case (Resolved xs)
  note r1 = this
  show ?thesis
  proof (cases "fst (queryByStatus UnderReview (snd (queryByStatus Submitted (store w))))")
    case Failed
    with r1 show ?thesis
      by (simp add: fetchPendingIdeas_def call_store_eq store_service_def)
  next
    case (Resolved ys)
    from query_result [OF r1] query_result [OF Resolved] r1 Resolved show ?thesis
      by (simp add: fetchPendingIdeas_def call_store_eq store_service_def query_ideas)
  qed
qed

lemma fetch_pending_ok:
  "pending_ok w \<Longrightarrow> pending_ok (fetchPendingIdeas store_service w)"
  by (auto simp add: pending_ok_def fetch_store_pending list_all_iff)

subsection \<open>The statuses of the pending ideas\<close>

lemma select_pending_ok:
  assumes "pending_ok w"
  shows "pending_ok (handleSelectIdea store_service i w)"
proof -
  have "pending_ok (w\<lparr>selectedIdea := Some i, scores := Map.empty, rationales := Map.empty\<rparr>)"
    using assms by (simp add: pending_ok_def)
  moreover have "pending_ok
      (w\<lparr>selectedIdea := Some i, scores := Map.empty, rationales := Map.empty,
         calls := c, store := st\<rparr>)" for c st
    using assms by (simp add: pending_ok_def)
  ultimately show ?thesis
    by (simp add: handleSelectIdea_def call_store_eq Let_def fetch_pending_ok
        split: promise.splits)
qed

lemma submit_pending_ok:
  assumes "pending_ok w"
  shows "pending_ok (handleSubmitAssessment store_service w)"
proof (cases "handleSubmitAssessment_dispatch store_service w")
  case (Inl w1)
  then have "pendingIdeas w1 = pendingIdeas w"
    by (auto simp add: handleSubmitAssessment_dispatch_def showToast_def call_store_eq
        split: option.splits if_splits)
  with assms Inl show ?thesis
    by (simp add: handleSubmitAssessment_def pending_ok_def)
next
  case (Inr t)
  obtain i r w1 where t: "t = (i, r, w1)"
    by (cases t)
  with Inr have "pendingIdeas w1 = pendingIdeas w"
    by (auto simp add: handleSubmitAssessment_dispatch_def showToast_def call_store_eq
        split: option.splits if_splits)
  with assms have w1: "pending_ok w1"
    by (simp add: pending_ok_def)
  have "pending_ok (handleSubmitAssessment_settle store_service i r w1)"
  proof (cases r)
    case (Resolved u)
    have "pending_ok (showToast (assessed_message i) Success w1
            \<lparr>selectedIdea := None, scores := Map.empty, rationales := Map.empty\<rparr>)"
      using w1 by (simp add: pending_ok_def showToast_def)
    then have "pending_ok (fetchPendingIdeas store_service
          (showToast (assessed_message i) Success w1
            \<lparr>selectedIdea := None, scores := Map.empty, rationales := Map.empty\<rparr>))"
      by (rule fetch_pending_ok)
    with Resolved show ?thesis
      by (simp add: handleSubmitAssessment_settle_def Let_def pending_ok_def)
  next
    case Failed
    with w1 show ?thesis
      by (simp add: handleSubmitAssessment_settle_def pending_ok_def showToast_def)
  qed
  with Inr t show ?thesis
    by (simp add: handleSubmitAssessment_def)
qed

lemma dispatch_pending:
  assumes "handleSubmitAssessment_dispatch svc w = Inr (i, r, w1)"
  shows "pendingIdeas w1 = pendingIdeas w"
  using assms
  by (auto simp add: handleSubmitAssessment_dispatch_def call_store_eq
      split: option.splits if_splits)

lemma settle_pending_ok:
  assumes "pending_ok w"
  shows "pending_ok (handleSubmitAssessment_settle store_service i r w)"
proof (cases r)
  case (Resolved u)
  have "pending_ok (showToast (assessed_message i) Success w
          \<lparr>selectedIdea := None, scores := Map.empty, rationales := Map.empty\<rparr>)"
    using assms by (simp add: pending_ok_def showToast_def)
  then have "pending_ok (fetchPendingIdeas store_service
        (showToast (assessed_message i) Success w
          \<lparr>selectedIdea := None, scores := Map.empty, rationales := Map.empty\<rparr>))"
    by (rule fetch_pending_ok)
  with Resolved show ?thesis
    by (simp add: handleSubmitAssessment_settle_def Let_def pending_ok_def)
next
  case Failed
  with assms show ?thesis
    by (simp add: handleSubmitAssessment_settle_def pending_ok_def showToast_def)
qed

text \<open>
  C9. \<^verbatim>\<open>fetchPendingIdeas\<close> queries the service for the ideas with status submitted and then
  for those with status under review, and when both queries resolve the pending list is
  exactly the first answer followed by the second. Over the idea store these are the stored
  ideas with the one status followed by those with the other. Every answer of the store to a
  query by status holds only ideas of that status, the list starts empty, and every handler
  of the page, the submission also in its two halves, turns a list of submitted and
  under-review ideas into such a list: whatever is done on the page and in whatever order,
  the pending list never holds an idea whose status is assessed or rejected.
\<close>

theorem pending_list:
  "(getIdeasByStatus svc Submitted (store w) = (Resolved xs, st1) \<longrightarrow>
    getIdeasByStatus svc UnderReview st1 = (Resolved ys, st2) \<longrightarrow>
      pendingIdeas (fetchPendingIdeas svc w) = xs @ ys
      \<and> calls (fetchPendingIdeas svc w) =
          calls w @ [GetIdeasByStatus Submitted, GetIdeasByStatus UnderReview])
   \<and> (\<not> loading (fetchPendingIdeas store_service v) \<longrightarrow>
        pendingIdeas (fetchPendingIdeas store_service v) =
          filter (\<lambda>i. status i = Submitted) (ideas (store v)) @
          filter (\<lambda>i. status i = UnderReview) (ideas (store v)))
   \<and> (fst (queryByStatus s sa) = Resolved zs \<longrightarrow> (\<forall>i \<in> set zs. status i = s))
   \<and> pendingIdeas (initial_page st) = []
   \<and> pending_ok v = (\<forall>i \<in> set (pendingIdeas v). status i = Submitted \<or> status i = UnderReview)
   \<and> (pending_ok v \<longrightarrow>
        pending_ok (fetchPendingIdeas store_service v)
        \<and> pending_ok (handleSelectIdea store_service i v)
        \<and> pending_ok (handleScoreChange d l v)
        \<and> pending_ok (handleRationaleChange d t v)
        \<and> pending_ok (cancelSelection v)
        \<and> pending_ok (handleSubmitAssessment store_service v)
        \<and> pending_ok (handleSubmitAssessment_settle store_service i r v)
        \<and> (handleSubmitAssessment_dispatch store_service v = Inr (j, q, v1) \<longrightarrow>
             pending_ok v1))"
proof -
  have a: "pendingIdeas (fetchPendingIdeas svc w) = xs @ ys
      \<and> calls (fetchPendingIdeas svc w) =
          calls w @ [GetIdeasByStatus Submitted, GetIdeasByStatus UnderReview]"
    if "getIdeasByStatus svc Submitted (store w) = (Resolved xs, st1)"
      and "getIdeasByStatus svc UnderReview st1 = (Resolved ys, st2)"
    using that by (simp add: fetchPendingIdeas_def call_store_eq)
  have b: "pendingIdeas (fetchPendingIdeas store_service v) =
          filter (\<lambda>i. status i = Submitted) (ideas (store v)) @
          filter (\<lambda>i. status i = UnderReview) (ideas (store v))"
    if "\<not> loading (fetchPendingIdeas store_service v)"
    using that by (simp add: fetch_store_pending)
  have c: "\<forall>i \<in> set zs. status i = s" if "fst (queryByStatus s sa) = Resolved zs"
    using query_result [OF that] by simp
  have e: "pendingIdeas (initial_page st) = []"
    by (simp add: initial_page_def)
  have f: "pending_ok v =
      (\<forall>i \<in> set (pendingIdeas v). status i = Submitted \<or> status i = UnderReview)"
    by (simp add: pending_ok_def list_all_iff)
  have g: "pending_ok (fetchPendingIdeas store_service v)
        \<and> pending_ok (handleSelectIdea store_service i v)
        \<and> pending_ok (handleScoreChange d l v)
        \<and> pending_ok (handleRationaleChange d t v)
        \<and> pending_ok (cancelSelection v)
        \<and> pending_ok (handleSubmitAssessment store_service v)
        \<and> pending_ok (handleSubmitAssessment_settle store_service i r v)
        \<and> (handleSubmitAssessment_dispatch store_service v = Inr (j, q, v1) \<longrightarrow>
             pending_ok v1)"
    if ok: "pending_ok v"
  proof -
    have "pending_ok (handleScoreChange d l v)" "pending_ok (handleRationaleChange d t v)"
      "pending_ok (cancelSelection v)"
      using ok
      by (simp_all add: pending_ok_def handleScoreChange_def handleRationaleChange_def
          cancelSelection_def)
    moreover have "pending_ok v1"
      if "handleSubmitAssessment_dispatch store_service v = Inr (j, q, v1)"
      using ok dispatch_pending [OF that] by (simp add: pending_ok_def)
    ultimately show ?thesis
      using fetch_pending_ok [OF ok] select_pending_ok [OF ok, of i] submit_pending_ok [OF ok]
        settle_pending_ok [OF ok, of i r]
      by blast
  qed
  from a b c e f g show ?thesis
    by blast
qed

theorem pending_list_witness:
  "pendingIdeas (fetchPendingIdeas store_service (initial_page example_store)) =
     [example_idea ''I1'' Submitted, example_idea ''I2'' UnderReview]
   \<and> calls (fetchPendingIdeas store_service (initial_page example_store)) =
     [GetIdeasByStatus Submitted, GetIdeasByStatus UnderReview]"
proof -
  have q1: "getIdeasByStatus store_service Submitted (store (initial_page example_store)) =
      (Resolved [example_idea ''I1'' Submitted], example_store)"
    by (simp add: store_service_def queryByStatus_def attempt_def example_store_def
        example_idea_def initial_page_def)
  have q2: "getIdeasByStatus store_service UnderReview example_store =
      (Resolved [example_idea ''I2'' UnderReview], example_store)"
    by (simp add: store_service_def queryByStatus_def attempt_def example_store_def
        example_idea_def)
  have c: "calls (initial_page example_store) = []"
    by (simp add: initial_page_def)
  from q1 q2 c show ?thesis
    using pending_list [of store_service "initial_page example_store"
        "[example_idea ''I1'' Submitted]" example_store
        "[example_idea ''I2'' UnderReview]" example_store, THEN conjunct1]
    by simp
qed

subsection \<open>The statuses in the store\<close>

lemma store_service_methods:
  "getIdeasByStatus store_service = queryByStatus"
  "updateIdeaStatus store_service = updateStatus"
  "submitAssessment store_service = submitRecord"
  by (simp_all add: store_service_def)

lemma select_overwrites:
  assumes "status i = Submitted"
    and "fst (updateStatus (idea_id i) UnderReview (store w)) = Resolved u"
  shows "ideas (store (handleSelectIdea store_service i w)) =
           set_status (idea_id i) UnderReview (ideas (store w))"
  using assms update_ideas [of "idea_id i" UnderReview "store w"]
  by (simp add: handleSelectIdea_def call_store_eq store_service_methods fetch_store_ideas
      Let_def)

lemma edits_cells:
  "selectedIdea (foldl apply_edit w es) = selectedIdea w"
  "store (foldl apply_edit w es) = store w"
  "calls (foldl apply_edit w es) = calls w"
proof (induction es arbitrary: w)
  case Nil
  {
    case 1 show ?case by simp
  next
    case 2 show ?case by simp
  next
    case 3 show ?case by simp
  }
next
  case (Cons e es)
  {
    case 1 show ?case
      using Cons(1) [of "apply_edit w e"]
      by (cases e) (simp_all add: handleScoreChange_def handleRationaleChange_def)
  next
    case 2 show ?case
      using Cons(2) [of "apply_edit w e"]
      by (cases e) (simp_all add: handleScoreChange_def handleRationaleChange_def)
  next
    case 3 show ?case
      using Cons(3) [of "apply_edit w e"]
      by (cases e) (simp_all add: handleScoreChange_def handleRationaleChange_def)
  }
qed

lemma stale_scored_complete: "isComplete stale_scored"
  unfolding stale_scored_def isComplete_iff scores_after_edits
  by (auto simp add: requiredDimensions_def example_edits_def)

lemma available_submitRecord: "outages st = [] \<Longrightarrow> fst (submitRecord k a st) = Resolved ()"
  by (simp add: submitRecord_def attempt_def)

text \<open>
  C8 fails on the code. \<^verbatim>\<open>handleSelectIdea\<close> decides by the status of the card's copy of the
  idea, not by the status the store holds. In the example visit the first status update fails,
  so the card of the first idea keeps its status submitted; the assessor scores the draft and
  clicks Submit, and while that call is outstanding the store already holds the idea as
  assessed, the spinner is not shown and the card is still in the list. A click on the card
  then issues the status update to under review, which is earlier on the path than assessed,
  and the store holds the idea as under review again.
\<close>

theorem stale_card_regresses_status:
  "map status (ideas (store stale_scored)) = [Submitted, UnderReview, Assessed, Rejected]
   \<and> handleSubmitAssessment_dispatch store_service stale_scored =
       Inr (example_idea ''I1'' Submitted, Resolved (), stale_outstanding)
   \<and> \<not> loading stale_outstanding
   \<and> example_idea ''I1'' Submitted \<in> set (pendingIdeas stale_outstanding)
   \<and> map status (ideas (store stale_outstanding)) =
       [Assessed, UnderReview, Assessed, Rejected]
   \<and> map status
        (ideas (store (handleSelectIdea store_service (example_idea ''I1'' Submitted)
           stale_outstanding))) =
       [UnderReview, UnderReview, Assessed, Rejected]
   \<and> List.map_filter written_status
        (calls (handleSelectIdea store_service (example_idea ''I1'' Submitted)
           stale_outstanding)) =
       [(''I1'', UnderReview), (''I1'', Assessed), (''I1'', UnderReview)]
   \<and> earlier UnderReview Assessed"
proof -
  let ?i = "example_idea ''I1'' Submitted"
  have before: "map status (ideas (store stale_scored)) =
      [Submitted, UnderReview, Assessed, Rejected]"
    by code_simp
  have sel: "selectedIdea stale_scored = Some ?i"
    by (simp add: stale_scored_def stale_opened_def edits_cells select_cells)
  have "outages (store stale_scored) = []"
    by code_simp
  then have ok: "fst (submitRecord ''I1'' (assessment_of stale_scored) (store stale_scored)) =
      Resolved ()"
    by (rule available_submitRecord)
  have id1: "idea_id ?i = ''I1''"
    by (simp add: example_idea_def)
  have disp: "handleSubmitAssessment_dispatch store_service stale_scored =
      Inr (?i, Resolved (), stale_outstanding)"
    using sel ok stale_scored_complete
    by (simp add: handleSubmitAssessment_dispatch_def id1 store_service_methods call_store_eq
        stale_outstanding_def)
  have shown: "\<not> loading stale_outstanding"
    by code_simp
  have card: "?i \<in> set (pendingIdeas stale_outstanding)"
    by code_simp
  have held: "map status (ideas (store stale_outstanding)) =
      [Assessed, UnderReview, Assessed, Rejected]"
    by code_simp
  have after: "map status (ideas (store (handleSelectIdea store_service ?i stale_outstanding))) =
      [UnderReview, UnderReview, Assessed, Rejected]"
    by code_simp
  have writes: "List.map_filter written_status
      (calls (handleSelectIdea store_service ?i stale_outstanding)) =
      [(''I1'', UnderReview), (''I1'', Assessed), (''I1'', UnderReview)]"
    by code_simp
  from before disp shown card held after writes show ?thesis
    by simp
qed

end
